theory Spec2Isabelle
  imports Main "HOL-Library.Word" "HOL-Library.Sublist"
begin

section \<open>JavaScript strings\<close>

text \<open>
  A JavaScript string is a sequence of 16-bit code units. All string operations of
  \<^verbatim>\<open>static/app.js\<close> are modelled on that representation, so that \<^verbatim>\<open>trim\<close>,
  \<^verbatim>\<open>split\<close> and the regular expressions see exactly what the script sees, Korean text
  included. \<open>str\<close> writes an ASCII literal of the script.
\<close>

type_synonym jschar = "16 word"
type_synonym jsstring = "jschar list"

definition str :: "string \<Rightarrow> jsstring" where
  "str s = map (\<lambda>c. of_nat (of_char c)) s"

definition newline :: jschar where
  "newline = 0x0A"

definition backtick :: jschar where
  "backtick = 0x60"

text \<open>The delimiter of \<^verbatim>\<open>text.split("```")\<close>.\<close>

definition fence :: jsstring where
  "fence = [backtick, backtick, backtick]"

text \<open>
  \<^verbatim>\<open>String.prototype.trim\<close> removes WhiteSpace and LineTerminator code points from both
  ends: TAB, LF, VT, FF, CR, SP, NBSP, the Unicode space separators, LS, PS and the
  byte order mark. All of them are single code units.
\<close>

definition isWhiteSpace :: "jschar \<Rightarrow> bool" where
  "isWhiteSpace c \<longleftrightarrow>
     c = 0x09 \<or> c = 0x0A \<or> c = 0x0B \<or> c = 0x0C \<or> c = 0x0D \<or> c = 0x20 \<or> c = 0xA0 \<or>
     c = 0x1680 \<or> (0x2000 \<le> c \<and> c \<le> 0x200A) \<or> c = 0x2028 \<or> c = 0x2029 \<or>
     c = 0x202F \<or> c = 0x205F \<or> c = 0x3000 \<or> c = 0xFEFF"

definition trim :: "jsstring \<Rightarrow> jsstring" where
  "trim s = rev (dropWhile isWhiteSpace (rev (dropWhile isWhiteSpace s)))"

text \<open>
  \<^verbatim>\<open>s.split(sep)\<close> for a non-empty separator: the pieces between the leftmost,
  non-overlapping occurrences of \<open>sep\<close>. The script splits on \<^verbatim>\<open>"```"\<close> and on
  \<^verbatim>\<open>"\n"\<close> only; with an empty separator (which JavaScript treats differently) the
  text comes back as one piece.
\<close>

function js_split :: "'a list \<Rightarrow> 'a list \<Rightarrow> 'a list list" where
  "js_split sep [] = [[]]"
| "js_split sep (c # cs) =
     (if sep \<noteq> [] \<and> prefix sep (c # cs)
      then [] # js_split sep (drop (length sep) (c # cs))
      else (case js_split sep cs of
              [] \<Rightarrow> [[c]]
            | p # ps \<Rightarrow> (c # p) # ps))"
  by pat_completeness auto
termination
  by (relation "measure (\<lambda>(sep, s). length s)") (auto simp: neq_Nil_conv)

text \<open>\<^verbatim>\<open>pieces.join(sep)\<close>.\<close>

fun js_join :: "'a list \<Rightarrow> 'a list list \<Rightarrow> 'a list" where
  "js_join sep [] = []"
| "js_join sep [x] = x"
| "js_join sep (x # y # ys) = x @ sep @ js_join sep (y # ys)"

text \<open>\<^verbatim>\<open>s.slice(a, b)\<close> for \<open>0 \<le> a \<le> b\<close>; both ends are clamped to the length.\<close>

definition slice :: "nat \<Rightarrow> nat \<Rightarrow> 'a list \<Rightarrow> 'a list" where
  "slice a b s = take (b - a) (drop a s)"

text \<open>
  Lower-casing of one ASCII code unit, and the test that a text is ASCII throughout.
\<close>

definition lowerChar :: "jschar \<Rightarrow> jschar" where
  "lowerChar c = (if 0x41 \<le> c \<and> c \<le> 0x5A then c + 0x20 else c)"

definition isAscii :: "jsstring \<Rightarrow> bool" where
  "isAscii s = list_all (\<lambda>c. c < 0x80) s"

text \<open>Decimal digits of a natural number, and of an integer with its sign.\<close>

fun digits :: "nat \<Rightarrow> jsstring" where
  "digits n = (if n < 10 then [0x30 + of_nat n] else digits (n div 10) @ [0x30 + of_nat (n mod 10)])"

declare digits.simps [simp del]

definition decimal :: "int \<Rightarrow> jsstring" where
  "decimal n = (if n < 0 then 0x2D # digits (nat (- n)) else digits (nat n))"

section \<open>escapeHtml\<close>

text \<open>
  \<^verbatim>\<open>str.replace(/[&<>"']/g, (c) => ({...}[c]))\<close>: each of the five characters is replaced
  by its entity, every other code unit is kept.
\<close>

definition escapeChar :: "jschar \<Rightarrow> jsstring" where
  "escapeChar c =
     (if c = 0x26 then str ''&amp;''
      else if c = 0x3C then str ''&lt;''
      else if c = 0x3E then str ''&gt;''
      else if c = 0x22 then str ''&quot;''
      else if c = 0x27 then str ''&#39;''
      else [c])"

definition escapeHtml :: "jsstring \<Rightarrow> jsstring" where
  "escapeHtml s = concat (map escapeChar s)"

section \<open>appendBubble: splitting a message into prose and code blocks\<close>

text \<open>
  The children that \<^verbatim>\<open>appendBubble\<close> appends to the bubble after the meta line: a
  \<^verbatim>\<open>div\<close> whose \<^verbatim>\<open>innerHTML\<close> is the escaped prose, or a \<^verbatim>\<open>pre\<close> of class
  \<^verbatim>\<open>codeblock\<close> whose \<^verbatim>\<open>textContent\<close> is the code. The \<^verbatim>\<open>pre\<close> element gets nothing
  but its class and its text: a language line is removed and kept nowhere.
\<close>

datatype node = Div jsstring | Pre jsstring

text \<open>\<^verbatim>\<open>/^[a-zA-Z0-9_-]+$/.test(s)\<close> (no flags: the anchors are the ends of \<open>s\<close>).\<close>

definition isTagChar :: "jschar \<Rightarrow> bool" where
  "isTagChar c \<longleftrightarrow>
     (0x61 \<le> c \<and> c \<le> 0x7A) \<or> (0x41 \<le> c \<and> c \<le> 0x5A) \<or> (0x30 \<le> c \<and> c \<le> 0x39) \<or>
     c = 0x5F \<or> c = 0x2D"

definition test_language :: "jsstring \<Rightarrow> bool" where
  "test_language s \<longleftrightarrow> s \<noteq> [] \<and> list_all isTagChar s"

text \<open>\<^verbatim>\<open>code.replace(/^\n+/, "")\<close>.\<close>

definition strip_newlines :: "jsstring \<Rightarrow> jsstring" where
  "strip_newlines s = dropWhile (\<lambda>c. c = newline) s"

text \<open>
  The odd-numbered branch of the \<^verbatim>\<open>forEach\<close>: the text of the \<^verbatim>\<open>pre\<close> element made
  from one piece. \<^verbatim>\<open>lines.shift()\<close> runs when the first line, trimmed, is a language
  tag.
\<close>

definition code_text :: "jsstring \<Rightarrow> jsstring" where
  "code_text part =
     (let lines = js_split [newline] part;
          lines' = (if lines \<noteq> [] \<and> test_language (trim (hd lines)) then tl lines else lines);
          code = js_join [newline] lines'
      in strip_newlines code)"

text \<open>\<^verbatim>\<open>parts.forEach((part, idx) => ...)\<close>, from index \<open>idx\<close> on.\<close>

fun render_parts :: "nat \<Rightarrow> jsstring list \<Rightarrow> node list" where
  "render_parts idx [] = []"
| "render_parts idx (part # parts) =
     (if idx mod 2 = 0
      then (if trim part \<noteq> [] then [Div (escapeHtml part)] else [])
      else [Pre (code_text part)])
     @ render_parts (Suc idx) parts"

definition body_nodes :: "jsstring \<Rightarrow> node list" where
  "body_nodes text =
     (let parts = js_split fence text
      in if length parts = 1 then [Div (escapeHtml text)] else render_parts 0 parts)"

section \<open>JSON values, as JSON.parse returns them\<close>

text \<open>
  \<open>JNum n\<close> is a number whose value is the integer \<open>n\<close> (line numbers; fractions are
  outside the model). An object keeps its members in the order of
  the text. A property that is missing reads as \<^verbatim>\<open>undefined\<close>, which is \<open>None\<close> of
  \<open>json option\<close>.
\<close>

datatype json =
    JNull
  | JBool bool
  | JNum int
  | JStr jsstring
  | JArr "json list"
  | JObj "(jsstring \<times> json) list"

datatype js_error = TypeError | Error jsstring

record response =
  res_status :: nat
  res_text :: jsstring

text \<open>
  What the script takes from outside during one handler: the text of
  \<^verbatim>\<open>Math.random().toString(16)\<close>, what \<^verbatim>\<open>now()\<close> returns before and after the request,
  \<^verbatim>\<open>Date.now()\<close>, the outcome of \<^verbatim>\<open>fetch\<close> (a rejection or a response), the library
  functions \<^verbatim>\<open>JSON.parse\<close> (\<open>None\<close> when it throws) and \<^verbatim>\<open>JSON.stringify(_, null, 2)\<close>, and
  the message the engine gives the TypeError that the handler catches, if it catches one.
  Two more library functions are taken from outside where no table of theirs is modelled:
  \<open>lower_case\<close> is \<^verbatim>\<open>String.prototype.toLowerCase\<close> on text that is not ASCII
  throughout (the Unicode case table), and \<open>number_text\<close> is the text of a number beyond
  the safe integers (the shortest digits that read back as the same double, with an
  exponent from \<open>10\<^sup>2\<^sup>1\<close> on).
\<close>

record env =
  random_hex :: jsstring
  clock :: jsstring
  clock_after :: jsstring
  date_now :: nat
  reply :: "js_error + response"
  json_parse :: "jsstring \<Rightarrow> json option"
  json_stringify :: "json \<Rightarrow> jsstring"
  type_error_message :: jsstring
  lower_case :: "jsstring \<Rightarrow> jsstring"
  number_text :: "int \<Rightarrow> jsstring"

text \<open>
  \<^verbatim>\<open>s.toLowerCase()\<close>: on ASCII text the letters A to Z become a to z and nothing else
  changes; any other text is lower-cased by the library.
\<close>

definition toLowerCase :: "env \<Rightarrow> jsstring \<Rightarrow> jsstring" where
  "toLowerCase e s = (if isAscii s then map lowerChar s else lower_case e s)"

text \<open>
  The text of a number, as string concatenation and template literals make it: an
  integer of magnitude below \<open>2\<^sup>5\<^sup>3\<close> prints as its decimal digits; beyond that the
  double is printed by the library.
\<close>

definition number_to_string :: "env \<Rightarrow> int \<Rightarrow> jsstring" where
  "number_to_string e n = (if \<bar>n\<bar> < 2 ^ 53 then decimal n else number_text e n)"

text \<open>
  \<^verbatim>\<open>v.name\<close> for a value that is not \<^verbatim>\<open>null\<close> and one of the names the script reads
  (summary, violations, fixed_code, unified_diff, severity, start_line, end_line, title,
  rule_id, message, suggestion, output): a member of an object (the last one of that name,
  as JSON.parse keeps it), \<^verbatim>\<open>undefined\<close> on everything else. Reading a property of
  \<^verbatim>\<open>null\<close> throws; the callers test for it.
\<close>

fun field :: "json \<Rightarrow> jsstring \<Rightarrow> json option" where
  "field (JObj kvs) k = map_of (rev kvs) k"
| "field _ k = None"

fun truthy :: "json \<Rightarrow> bool" where
  "truthy JNull = False"
| "truthy (JBool b) = b"
| "truthy (JNum n) = (n \<noteq> 0)"
| "truthy (JStr s) = (s \<noteq> [])"
| "truthy (JArr xs) = True"
| "truthy (JObj kvs) = True"

text \<open>\<^verbatim>\<open>x || d\<close> for a string literal \<open>d\<close>.\<close>

definition or_else :: "json option \<Rightarrow> jsstring \<Rightarrow> json" where
  "or_else x d = (case x of Some v \<Rightarrow> (if truthy v then v else JStr d) | None \<Rightarrow> JStr d)"

text \<open>Truthiness of a value that may be \<^verbatim>\<open>undefined\<close>, and \<^verbatim>\<open>a || b\<close>.\<close>

definition truthy_opt :: "json option \<Rightarrow> bool" where
  "truthy_opt x = (case x of None \<Rightarrow> False | Some v \<Rightarrow> truthy v)"

definition js_or :: "json option \<Rightarrow> json option \<Rightarrow> json option" where
  "js_or a b = (if truthy_opt a then a else b)"

text \<open>
  ToString, as a template literal and the \<^verbatim>\<open>textContent\<close> setter apply it. An array
  joins its elements with commas, \<^verbatim>\<open>null\<close> elements printing as nothing.
\<close>

fun to_string :: "env \<Rightarrow> json \<Rightarrow> jsstring" where
  "to_string e JNull = str ''null''"
| "to_string e (JBool b) = (if b then str ''true'' else str ''false'')"
| "to_string e (JNum n) = number_to_string e n"
| "to_string e (JStr s) = s"
| "to_string e (JArr xs) =
     js_join (str '','') (map (\<lambda>x. if x = JNull then [] else to_string e x) xs)"
| "to_string e (JObj kvs) = str ''[object Object]''"

definition to_string_opt :: "env \<Rightarrow> json option \<Rightarrow> jsstring" where
  "to_string_opt e x = (case x of None \<Rightarrow> str ''undefined'' | Some v \<Rightarrow> to_string e v)"

text \<open>
  The receiver of a string method (\<^verbatim>\<open>toLowerCase\<close>, \<^verbatim>\<open>replace\<close>, \<^verbatim>\<open>split\<close>): any other
  value has no such method, and the call throws a TypeError.
\<close>

fun as_string :: "json \<Rightarrow> js_error + jsstring" where
  "as_string (JStr s) = Inr s"
| "as_string _ = Inl TypeError"

section \<open>The page\<close>

text \<open>A chat bubble: the class of the wrapper, the two holes of the meta line, the body.\<close>

record bubble =
  bubble_class :: jsstring
  bubble_who :: jsstring
  bubble_pill :: jsstring
  bubble_body :: "node list"

text \<open>
  One violation box: the holes of the \<^verbatim>\<open>innerHTML\<close> template in order of appearance
  (the severity fills the class and the text of the badge). \<open>vio_suggest\<close> is \<open>None\<close>
  when the template's last hole is the empty string.
\<close>

record vio_box =
  vio_title :: jsstring
  vio_rule :: jsstring
  vio_line_html :: jsstring
  vio_badge :: jsstring
  vio_msg :: jsstring
  vio_suggest :: "jsstring option"

text \<open>A child of \<^verbatim>\<open>#violations\<close>: the muted placeholder or a box.\<close>

datatype vnode = Muted jsstring | Vio vio_box

record request =
  req_url :: jsstring
  req_body :: json

datatype tab = ChatTab | CheckTab

text \<open>
  What the script reads and writes: the values of the inputs, the text and children of
  the panels, the browser's \<^verbatim>\<open>localStorage\<close>, the tab shown by \<^verbatim>\<open>setMode\<close>, and the
  POST requests sent so far.
\<close>

record page =
  sessionIdInput :: jsstring
  localStorage :: "jsstring \<rightharpoonup> jsstring"
  chatInput :: jsstring
  chatLog :: "bubble list"
  codeInput :: jsstring
  autoFix :: bool
  includeDiff :: bool
  resultSummary :: jsstring
  violationsEl :: "vnode list"
  fixedCodeEl :: jsstring
  unifiedDiffEl :: jsstring
  mode :: tab
  requests :: "request list"

definition STORAGE_KEY :: jsstring where
  "STORAGE_KEY = str ''ai_code_rule_checker_session_id''"

section \<open>Session id\<close>

text \<open>\<^verbatim>\<open>"demo-" + Math.random().toString(16).slice(2, 10)\<close>.\<close>

definition fresh_id :: "jsstring \<Rightarrow> jsstring" where
  "fresh_id rnd = str ''demo-'' @ slice 2 10 rnd"

definition getSessionId :: "jsstring \<Rightarrow> page \<Rightarrow> jsstring \<times> page" where
  "getSessionId rnd st =
     (let sid0 = trim (sessionIdInput st);
          sid = (if sid0 = [] then fresh_id rnd else sid0);
          st1 = (if sid0 = [] then st\<lparr>sessionIdInput := sid\<rparr> else st)
      in (sid, st1\<lparr>localStorage := (localStorage st1)(STORAGE_KEY \<mapsto> sid)\<rparr>))"

text \<open>\<^verbatim>\<open>if(sid)\<close> on \<^verbatim>\<open>getItem\<close>: a missing entry is \<^verbatim>\<open>null\<close>, an empty one is falsy too.\<close>

definition loadSessionId :: "jsstring \<Rightarrow> page \<Rightarrow> page" where
  "loadSessionId rnd st =
     (case localStorage st STORAGE_KEY of
        Some sid \<Rightarrow> (if sid \<noteq> [] then st\<lparr>sessionIdInput := sid\<rparr>
                     else st\<lparr>sessionIdInput := fresh_id rnd\<rparr>)
      | None \<Rightarrow> st\<lparr>sessionIdInput := fresh_id rnd\<rparr>)"

text \<open>
  The \<^verbatim>\<open>change\<close> listener of the session id field: the user has committed \<open>typed\<close> as
  the field's new value.
\<close>

definition sessionId_change :: "jsstring \<Rightarrow> page \<Rightarrow> page" where
  "sessionId_change typed st =
     (let st1 = st\<lparr>sessionIdInput := typed\<rparr>;
          sid = trim (sessionIdInput st1)
      in if sid \<noteq> [] then st1\<lparr>localStorage := (localStorage st1)(STORAGE_KEY \<mapsto> sid)\<rparr> else st1)"

section \<open>Chat bubbles\<close>

text \<open>
  \<^verbatim>\<open>appendBubble(role, text, meta)\<close>; \<open>meta\<close> is \<open>None\<close> when the argument is left out,
  and \<open>now_text\<close> is what \<^verbatim>\<open>now()\<close> returns if it is called.
\<close>

definition make_bubble :: "jsstring \<Rightarrow> jsstring \<Rightarrow> jsstring option \<Rightarrow> jsstring \<Rightarrow> bubble" where
  "make_bubble role text meta now_text =
     \<lparr> bubble_class = str ''bubble '' @ role,
       bubble_who = (if role = str ''user'' then str ''You'' else str ''AI''),
       bubble_pill = escapeHtml (case meta of Some m \<Rightarrow> (if m \<noteq> [] then m else now_text)
                                 | None \<Rightarrow> now_text),
       bubble_body = body_nodes text \<rparr>"

definition appendBubble :: "jsstring \<Rightarrow> jsstring \<Rightarrow> jsstring option \<Rightarrow> jsstring \<Rightarrow> page \<Rightarrow> page" where
  "appendBubble role text meta now_text st =
     st\<lparr>chatLog := chatLog st @ [make_bubble role text meta now_text]\<rparr>"

text \<open>\<^verbatim>\<open>setMode\<close>: classes, \<^verbatim>\<open>aria-selected\<close>, \<^verbatim>\<open>hidden\<close> and focus all follow the tab shown.\<close>

definition setMode :: "jsstring \<Rightarrow> page \<Rightarrow> page" where
  "setMode m st = (if m = str ''chat'' then st\<lparr>mode := ChatTab\<rparr> else st\<lparr>mode := CheckTab\<rparr>)"

section \<open>The Korean literals of the script, as code units\<close>

text \<open>The placeholder of \<^verbatim>\<open>result.summary || ...\<close>: "(summary " followed by the two
  syllables U+C5C6 U+C74C ("none") and ")".\<close>

definition text_no_summary :: jsstring where
  "text_no_summary =
     [0x0028, 0x0073, 0x0075, 0x006D, 0x006D, 0x0061, 0x0072, 0x0079, 0x0020, 0xC5C6, 0xC74C, 0x0029]"

text \<open>The text of the muted placeholder ("there is no violation").\<close>

definition text_no_violation :: jsstring where
  "text_no_violation = [0xC704, 0xBC18, 0xC774, 0x0020, 0xC5C6, 0xB2E4, 0x002E]"

text \<open>The prompt of \<^verbatim>\<open>runCheck\<close> on empty input ("code must be entered").\<close>

definition text_code_required :: jsstring where
  "text_code_required =
     [0xCF54, 0xB4DC, 0xB97C, 0x0020, 0xC785, 0xB825, 0xD574, 0xC57C, 0x0020, 0xD55C, 0xB2E4, 0x002E]"

text \<open>"running" and "thinking", each ending in an ellipsis U+2026.\<close>

definition text_running :: jsstring where
  "text_running = [0xC2E4, 0xD589, 0x0020, 0xC911, 0x2026]"

definition text_thinking :: jsstring where
  "text_thinking = [0xC0DD, 0xAC01, 0x0020, 0xC911, 0x2026]"

text \<open>The prefixes "error: " and "suggestion: ".\<close>

definition text_error :: jsstring where
  "text_error = [0xC5D0, 0xB7EC, 0x003A, 0x0020]"

definition text_suggest :: jsstring where
  "text_suggest = [0xC81C, 0xC548, 0x003A, 0x0020]"

text \<open>The first line of the pasted result ("code check result:"), with its newline.\<close>

definition text_result_header :: jsstring where
  "text_result_header =
     [0xCF54, 0xB4DC, 0x0020, 0xAC80, 0xC0AC, 0x0020, 0xACB0, 0xACFC, 0x003A, 0x000A]"

section \<open>postJson\<close>

text \<open>\<^verbatim>\<open>res.ok\<close> of the Fetch API: the status is in the range 200 to 299.\<close>

definition res_ok :: "response \<Rightarrow> bool" where
  "res_ok res \<longleftrightarrow> 200 \<le> res_status res \<and> res_status res \<le> 299"

text \<open>
  The result is \<open>Inl\<close> when \<^verbatim>\<open>postJson\<close> throws (the rejection of \<^verbatim>\<open>fetch\<close>, or the
  \<^verbatim>\<open>Error\<close> made from a response that is not ok) and \<open>Inr\<close> when it returns. The request
  is recorded on the page.
\<close>

definition postJson :: "jsstring \<Rightarrow> json \<Rightarrow> env \<Rightarrow> page \<Rightarrow> (js_error + json) \<times> page" where
  "postJson url data e st =
     (let st1 = st\<lparr>requests := requests st @ [\<lparr>req_url = url, req_body = data\<rparr>]\<rparr>
      in case reply e of
           Inl err \<Rightarrow> (Inl err, st1)
         | Inr res \<Rightarrow>
             (let text = res_text res
              in if \<not> res_ok res
                 then (Inl (Error (if text \<noteq> [] then text
                                   else str ''HTTP '' @ digits (res_status res))), st1)
                 else (case json_parse e text of
                         Some v \<Rightarrow> (Inr v, st1)
                       | None \<Rightarrow> (Inr (JObj [(str ''raw'', JStr text)]), st1))))"

text \<open>\<^verbatim>\<open>String(err.message || err)\<close> in the two \<^verbatim>\<open>catch\<close> blocks.\<close>

definition error_text :: "js_error \<Rightarrow> env \<Rightarrow> jsstring" where
  "error_text err e =
     (case err of
        Error m \<Rightarrow> (if m \<noteq> [] then m else str ''Error'')
      | TypeError \<Rightarrow> (if type_error_message e \<noteq> [] then type_error_message e
                      else str ''TypeError''))"

section \<open>sendChat\<close>

text \<open>
  The text of the answer bubble, \<^verbatim>\<open>out.output || JSON.stringify(out, null, 2)\<close>, or the
  error thrown inside the \<^verbatim>\<open>try\<close> block: by \<^verbatim>\<open>postJson\<close>, by reading \<^verbatim>\<open>output\<close> of
  \<^verbatim>\<open>null\<close>, or by \<^verbatim>\<open>text.split\<close> in \<^verbatim>\<open>appendBubble\<close> when the output is not a string
  (which happens before the bubble is appended).
\<close>

definition answer_text :: "env \<Rightarrow> js_error + json \<Rightarrow> js_error + jsstring" where
  "answer_text e out =
     (case out of
        Inl err \<Rightarrow> Inl err
      | Inr v \<Rightarrow>
          (if v = JNull then Inl TypeError
           else (case field v (str ''output'') of
                   None \<Rightarrow> Inr (json_stringify e v)
                 | Some x \<Rightarrow> (if truthy x then as_string x else Inr (json_stringify e v)))))"

text \<open>
  The \<^verbatim>\<open>await\<close> is modelled as returning at once: no other handler runs between the
  request and its answer.
\<close>

definition sendChat :: "env \<Rightarrow> page \<Rightarrow> page" where
  "sendChat e st =
     (let msg = chatInput st
      in if trim msg = [] then st
         else
           (let (sid, st1) = getSessionId (random_hex e) st;
                st2 = appendBubble (str ''user'') msg None (clock e) st1;
                st3 = st2\<lparr>chatInput := []\<rparr>;
                loadingId = str ''loading-'' @ digits (date_now e);
                st4 = appendBubble (str ''assistant'') text_thinking (Some loadingId) (clock e) st3;
                (out, st5) = postJson (str ''/agent'')
                               (JObj [(str ''session_id'', JStr sid), (str ''input'', JStr msg),
                                      (str ''debug'', JBool False)]) e st4
            in case answer_text e out of
                 Inr text \<Rightarrow> appendBubble (str ''assistant'') text None (clock_after e) st5
               | Inl err \<Rightarrow> appendBubble (str ''assistant'') (text_error @ error_text err e) None
                              (clock_after e) st5))"

section \<open>clearChat\<close>

text \<open>
  The guide that \<^verbatim>\<open>clearChat\<close> shows: a notice, three example questions, and a fenced
  Python example at the end.
\<close>

definition text_guide :: jsstring where
  "text_guide =
     [0xC548, 0xB0B4, 0x003A, 0x000A, 0x002D, 0x0020, 0xADDC, 0xCE59, 0xC744, 0x0020,
      0xBB3C, 0xC5B4, 0xBCF4, 0xBA74, 0x0020, 0xADDC, 0xCE59, 0xC744, 0x0020, 0xC124,
      0xBA85, 0xD55C, 0xB2E4, 0x002E, 0x000A, 0x002D, 0x0020, 0xCF54, 0xB4DC, 0xB97C,
      0x0020, 0xBD99, 0xC5EC, 0xB123, 0xC73C, 0xBA74, 0x0020, 0xADDC, 0xCE59, 0x0020,
      0xC704, 0xBC18, 0xC744, 0x0020, 0xCC3E, 0xACE0, 0x002C, 0x0020, 0xAC00, 0xB2A5,
      0xD55C, 0x0020, 0xACBD, 0xC6B0, 0x0020, 0xACE0, 0xCE5C, 0xB2E4, 0x002E, 0x000A,
      0x000A, 0xC608, 0xC2DC, 0x0020, 0xC9C8, 0xBB38, 0x003A, 0x000A, 0x0031, 0x0029,
      0x0020, 0xD300, 0x0020, 0xB0B4, 0x0020, 0xADDC, 0xCE59, 0x0020, 0xC804, 0xBD80,
      0x0020, 0xC54C, 0xB824, 0xC918, 0x000A, 0x0032, 0x0029, 0x0020, 0x0069, 0x006D,
      0x0070, 0x006F, 0x0072, 0x0074, 0x0020, 0xC21C, 0xC11C, 0x0020, 0xADDC, 0xCE59,
      0xC774, 0x0020, 0xBB50, 0xC57C, 0x003F, 0x000A, 0x0033, 0x0029, 0x0020, 0xC544,
      0xB798, 0x0020, 0xCF54, 0xB4DC, 0xB97C, 0x0020, 0xADDC, 0xCE59, 0xC5D0, 0x0020,
      0xB9DE, 0xAC8C, 0x0020, 0xACE0, 0xCCD0, 0xC918, 0x000A, 0x0060, 0x0060, 0x0060,
      0x0070, 0x0079, 0x0074, 0x0068, 0x006F, 0x006E, 0x000A, 0x0066, 0x0072, 0x006F,
      0x006D, 0x0020, 0x0062, 0x0020, 0x0069, 0x006D, 0x0070, 0x006F, 0x0072, 0x0074,
      0x0020, 0x0078, 0x000A, 0x0066, 0x0072, 0x006F, 0x006D, 0x0020, 0x0061, 0x0020,
      0x0069, 0x006D, 0x0070, 0x006F, 0x0072, 0x0074, 0x0020, 0x0079, 0x000A, 0x0070,
      0x0072, 0x0069, 0x006E, 0x0074, 0x0028, 0x0031, 0x0029, 0x000A, 0x0060, 0x0060,
      0x0060]"

definition clearChat :: "jsstring \<Rightarrow> page \<Rightarrow> page" where
  "clearChat now_text st =
     appendBubble (str ''assistant'') text_guide None now_text (st\<lparr>chatLog := []\<rparr>)"

section \<open>renderCheckResult\<close>

text \<open>\<^verbatim>\<open>(v.severity || "warning").toLowerCase()\<close>.\<close>

definition vio_sev :: "env \<Rightarrow> json \<Rightarrow> js_error + jsstring" where
  "vio_sev e v =
     (if v = JNull then Inl TypeError
      else (case as_string (or_else (field v (str ''severity'')) (str ''warning'')) of
              Inl err \<Rightarrow> Inl err
            | Inr s \<Rightarrow> Inr (toLowerCase e s)))"

text \<open>The \<^verbatim>\<open>line\<close> constant of the loop body (\<open>v\<close> is not \<^verbatim>\<open>null\<close> here).\<close>

definition vio_line :: "env \<Rightarrow> json \<Rightarrow> jsstring" where
  "vio_line e v =
     (let s = field v (str ''start_line''); t = field v (str ''end_line'')
      in if truthy_opt s \<and> truthy_opt t then to_string_opt e s @ str ''~'' @ to_string_opt e t
         else if truthy_opt s then to_string_opt e s
         else str ''-'')"

text \<open>\<^verbatim>\<open>escapeHtml(x || d)\<close>: the argument must be a string.\<close>

definition escaped :: "json option \<Rightarrow> jsstring \<Rightarrow> js_error + jsstring" where
  "escaped x d =
     (case as_string (or_else x d) of Inl err \<Rightarrow> Inl err | Inr s \<Rightarrow> Inr (escapeHtml s))"

text \<open>The last hole of the template: empty, or the suggestion line.\<close>

definition suggest_html :: "json option \<Rightarrow> js_error + jsstring option" where
  "suggest_html x =
     (if truthy_opt x
      then (case escaped x [] of Inl err \<Rightarrow> Inl err | Inr s \<Rightarrow> Inr (Some (text_suggest @ s)))
      else Inr None)"

text \<open>
  The body of \<^verbatim>\<open>vios.forEach((v) => ...)\<close> up to the \<^verbatim>\<open>appendChild\<close>: the box, or the
  TypeError of the first expression that throws.
\<close>

definition make_vio :: "env \<Rightarrow> json \<Rightarrow> js_error + vio_box" where
  "make_vio e v =
     (case vio_sev e v of
        Inl err \<Rightarrow> Inl err
      | Inr sev \<Rightarrow>
     (case escaped (js_or (field v (str ''title'')) (field v (str ''rule_id''))) (str ''RULE'') of
        Inl err \<Rightarrow> Inl err
      | Inr title \<Rightarrow>
     (case escaped (field v (str ''rule_id'')) [] of
        Inl err \<Rightarrow> Inl err
      | Inr rule \<Rightarrow>
     (case escaped (field v (str ''message'')) [] of
        Inl err \<Rightarrow> Inl err
      | Inr msg \<Rightarrow>
     (case suggest_html (field v (str ''suggestion'')) of
        Inl err \<Rightarrow> Inl err
      | Inr sg \<Rightarrow>
          Inr \<lparr>vio_title = title, vio_rule = rule, vio_line_html = escapeHtml (vio_line e v),
               vio_badge = escapeHtml sev, vio_msg = msg, vio_suggest = sg\<rparr>)))))"

text \<open>
  \<^verbatim>\<open>vios.forEach\<close>: the boxes are appended one by one; an exception leaves those
  already appended.
\<close>

fun render_vios :: "env \<Rightarrow> json list \<Rightarrow> page \<Rightarrow> js_error option \<times> page" where
  "render_vios e [] st = (None, st)"
| "render_vios e (v # vs) st =
     (case make_vio e v of
        Inl err \<Rightarrow> (Some err, st)
      | Inr box \<Rightarrow> render_vios e vs (st\<lparr>violationsEl := violationsEl st @ [Vio box]\<rparr>))"

text \<open>\<^verbatim>\<open>Array.isArray(result.violations) ? result.violations : []\<close>.\<close>

definition violations_of :: "json \<Rightarrow> json list" where
  "violations_of result =
     (case field result (str ''violations'') of Some (JArr vs) \<Rightarrow> vs | _ \<Rightarrow> [])"

text \<open>
  The first component is the exception the function ends with, if any. Reading
  \<^verbatim>\<open>summary\<close> of \<^verbatim>\<open>null\<close> throws before anything is written. The environment is
  consulted for the two library functions only.
\<close>

definition renderCheckResult :: "env \<Rightarrow> json \<Rightarrow> page \<Rightarrow> js_error option \<times> page" where
  "renderCheckResult e result st =
     (if result = JNull then (Some TypeError, st)
      else
        (let st1 = st\<lparr>resultSummary := to_string e (or_else (field result (str ''summary'')) text_no_summary),
                      violationsEl := [],
                      fixedCodeEl := to_string e (or_else (field result (str ''fixed_code'')) []),
                      unifiedDiffEl := to_string e (or_else (field result (str ''unified_diff'')) [])\<rparr>;
             vios = violations_of result
         in if length vios = 0
            then (None, st1\<lparr>violationsEl := violationsEl st1 @ [Muted text_no_violation]\<rparr>)
            else render_vios e vios st1))"

section \<open>runCheck\<close>

definition check_request :: "jsstring \<Rightarrow> jsstring \<Rightarrow> page \<Rightarrow> json" where
  "check_request sid code st =
     JObj [(str ''session_id'', JStr sid), (str ''language'', JStr (str ''python'')),
           (str ''code'', JStr code), (str ''auto_fix'', JBool (autoFix st)),
           (str ''include_diff'', JBool (includeDiff st))]"

definition runCheck :: "env \<Rightarrow> page \<Rightarrow> page" where
  "runCheck e st =
     (let code = codeInput st
      in if trim code = [] then st\<lparr>resultSummary := text_code_required\<rparr>
         else
           (let (sid, st1) = getSessionId (random_hex e) st;
                st2 = st1\<lparr>resultSummary := text_running, violationsEl := [],
                          fixedCodeEl := [], unifiedDiffEl := []\<rparr>;
                (out, st3) = postJson (str ''/check'') (check_request sid code st2) e st2
            in case out of
                 Inl err \<Rightarrow> st3\<lparr>resultSummary := text_error @ error_text err e\<rparr>
               | Inr v \<Rightarrow>
                   (case renderCheckResult e v st3 of
                      (None, st4) \<Rightarrow> st4
                    | (Some err, st4) \<Rightarrow> st4\<lparr>resultSummary := text_error @ error_text err e\<rparr>)))"

section \<open>pasteResultToChat\<close>

definition paste_message :: "jsstring \<Rightarrow> jsstring \<Rightarrow> jsstring \<Rightarrow> jsstring" where
  "paste_message summary fixed diff =
     (let msg0 = text_result_header @ summary @ [newline];
          msg1 = (if trim fixed \<noteq> []
                  then msg0 @ [newline] @ str ''fixed_code:'' @ [newline] @ fence @ str ''python''
                         @ [newline] @ fixed @ [newline] @ fence @ [newline]
                  else msg0)
      in if trim diff \<noteq> []
         then msg1 @ [newline] @ str ''diff:'' @ [newline] @ fence @ str ''diff''
                @ [newline] @ diff @ [newline] @ fence @ [newline]
         else msg1)"

definition pasteResultToChat :: "jsstring \<Rightarrow> page \<Rightarrow> page" where
  "pasteResultToChat now_text st =
     setMode (str ''chat'')
       (appendBubble (str ''assistant'')
          (paste_message (resultSummary st) (fixedCodeEl st) (unifiedDiffEl st)) None now_text st)"

section \<open>The session id pattern and sample inputs\<close>

text \<open>
  The pattern \<^verbatim>\<open>^demo-[0-9a-f]{8}$\<close> that the specification gives for a synthesized
  session id. It is not part of the script; it is the yardstick for \<open>fresh_id\<close>.
\<close>

definition isHexDigit :: "jschar \<Rightarrow> bool" where
  "isHexDigit c \<longleftrightarrow> (0x30 \<le> c \<and> c \<le> 0x39) \<or> (0x61 \<le> c \<and> c \<le> 0x66)"

definition matches_demo_pattern :: "jsstring \<Rightarrow> bool" where
  "matches_demo_pattern s \<longleftrightarrow>
     take 5 s = str ''demo-'' \<and> length s = 13 \<and> list_all isHexDigit (drop 5 s)"

text \<open>
  A page with every field empty, and an environment whose server answers 500 "boom",
  whose library leaves text that is not ASCII as it is when lower-casing, and whose
  number text is that of \<open>10\<^sup>2\<^sup>1\<close>.
\<close>

definition page0 :: page where
  "page0 = \<lparr> sessionIdInput = [], localStorage = Map.empty, chatInput = [], chatLog = [],
             codeInput = [], autoFix = False, includeDiff = False, resultSummary = [],
             violationsEl = [], fixedCodeEl = [], unifiedDiffEl = [], mode = ChatTab,
             requests = [] \<rparr>"

definition env0 :: env where
  "env0 = \<lparr> random_hex = str ''0.3a5f9c2e1b7d4'', clock = str ''10:15'', clock_after = str ''10:16'',
            date_now = 1700000000000,
            reply = Inr \<lparr>res_status = 500, res_text = str ''boom''\<rparr>,
            json_parse = (\<lambda>t. None), json_stringify = (\<lambda>v. str ''{}''),
            type_error_message = str ''not a function'',
            lower_case = (\<lambda>s. s), number_text = (\<lambda>n. str ''1e+21'') \<rparr>"

section \<open>Facts about splitting and joining\<close>

lemma js_split_not_Nil: "js_split sep s \<noteq> []"
  by (induction sep s rule: js_split.induct) (auto split: list.splits)

lemma js_split_no_match:
  "\<not> sublist sep s \<Longrightarrow> js_split sep s = [s]"
proof (induction sep s rule: js_split.induct)
  case (1 sep)
  then show ?case by simp
next
  case (2 sep c cs)
  from "2.prems" have np: "\<not> prefix sep (c # cs)" and ns: "\<not> sublist sep cs"
    by (auto simp: sublist_Cons_right)
  from "2.IH"(2) np ns have "js_split sep cs = [cs]" by simp
  with np show ?case by simp
qed

lemma prefix_append_long:
  "prefix sep (a @ b) \<Longrightarrow> length sep \<le> length a \<Longrightarrow> prefix sep a"
  using prefix_length_prefix[of sep "a @ b" a] by simp

lemma js_split_first_match:
  "sep \<noteq> [] \<Longrightarrow> \<not> sublist sep (a @ butlast sep) \<Longrightarrow>
   js_split sep (a @ sep @ rest) = a # js_split sep rest"
proof (induction a)
  case Nil
  then obtain c cs where sr: "sep @ rest = c # cs" by (cases sep) auto
  have "prefix sep (c # cs)" unfolding sr[symmetric] by simp
  moreover have "drop (length sep) (c # cs) = rest" unfolding sr[symmetric] by simp
  ultimately have "js_split sep (c # cs) = [] # js_split sep rest"
    using Nil.prems(1) by simp
  then show ?case by (simp add: sr)
next
  case (Cons x a)
  have np: "\<not> prefix sep (x # a @ sep @ rest)"
  proof
    assume p: "prefix sep (x # a @ sep @ rest)"
    have eq: "x # a @ sep @ rest = ((x # a) @ butlast sep) @ (last sep # rest)"
      using Cons.prems(1) by simp
    have "length sep \<le> length ((x # a) @ butlast sep)" by simp
    with p have "prefix sep ((x # a) @ butlast sep)"
      unfolding eq by (rule prefix_append_long)
    then have "sublist sep ((x # a) @ butlast sep)" by (rule prefix_imp_sublist)
    with Cons.prems(2) show False by simp
  qed
  have "\<not> sublist sep (a @ butlast sep)"
    using Cons.prems(2) by (auto simp: sublist_Cons_right)
  with Cons.IH Cons.prems(1) have "js_split sep (a @ sep @ rest) = a # js_split sep rest"
    by simp
  with np show ?case by simp
qed

lemma js_join_split: "js_join sep (js_split sep s) = s"
proof (induction sep s rule: js_split.induct)
  case (1 sep)
  then show ?case by simp
next
  case (2 sep c cs)
  show ?case
  proof (cases "sep \<noteq> [] \<and> prefix sep (c # cs)")
    case True
    then obtain zs where zs: "c # cs = sep @ zs" by (auto simp: prefix_def)
    then have d: "drop (length sep) (c # cs) = zs" by simp
    from "2.IH"(1) True d have ih: "js_join sep (js_split sep zs) = zs" by simp
    obtain p ps where pp: "js_split sep zs = p # ps"
      using js_split_not_Nil[of sep zs] by (cases "js_split sep zs") auto
    have "js_split sep (c # cs) = [] # js_split sep zs"
      using True d by simp
    then have "js_join sep (js_split sep (c # cs)) = sep @ zs"
      using pp ih by simp
    then show ?thesis by (simp add: zs)
  next
    case False
    with "2.IH"(2) have ih: "js_join sep (js_split sep cs) = cs" by simp
    obtain p ps where pp: "js_split sep cs = p # ps"
      using js_split_not_Nil[of sep cs] by (cases "js_split sep cs") auto
    from False pp ih show ?thesis by (cases ps) auto
  qed
qed

lemma set_dropWhile_cover: "set xs \<subseteq> set (dropWhile P xs) \<union> Collect P"
  by (induction xs) auto

lemma set_trim_cover: "set s \<subseteq> set (trim s) \<union> Collect isWhiteSpace"
proof -
  let ?d = "dropWhile isWhiteSpace s"
  have "set (rev ?d) \<subseteq> set (dropWhile isWhiteSpace (rev ?d)) \<union> Collect isWhiteSpace"
    by (rule set_dropWhile_cover)
  then have "set ?d \<subseteq> set (trim s) \<union> Collect isWhiteSpace"
    by (simp add: trim_def)
  moreover have "set s \<subseteq> set ?d \<union> Collect isWhiteSpace"
    by (rule set_dropWhile_cover)
  ultimately show ?thesis by blast
qed

lemma backtick_not_space: "\<not> isWhiteSpace backtick"
  by (simp add: isWhiteSpace_def backtick_def)

lemma backtick_not_tag: "\<not> isTagChar backtick"
  by (simp add: isTagChar_def backtick_def)

lemma language_line_no_backtick:
  assumes "test_language (trim lang)"
  shows "backtick \<notin> set lang"
proof
  assume "backtick \<in> set lang"
  with set_trim_cover[of lang] have "backtick \<in> set (trim lang) \<or> isWhiteSpace backtick"
    by auto
  moreover from assms have "list_all isTagChar (trim lang)"
    by (simp add: test_language_def)
  ultimately show False
    using backtick_not_space backtick_not_tag by (auto simp: list_all_iff)
qed

lemma fence_free_prefix:
  assumes nf: "\<not> sublist fence a" and ne: "\<not> suffix [backtick] a"
  shows "\<not> sublist fence (a @ butlast fence)"
proof
  assume "sublist fence (a @ butlast fence)"
  then have "sublist fence ((a @ [backtick]) @ [backtick])"
    by (simp add: fence_def)
  then have "suffix fence ((a @ [backtick]) @ [backtick]) \<or> sublist fence (a @ [backtick])"
    by (simp only: sublist_snoc)
  then show False
  proof
    assume "suffix fence ((a @ [backtick]) @ [backtick])"
    then have "suffix ([backtick] @ [backtick, backtick]) (a @ [backtick, backtick])"
      by (simp add: fence_def)
    then have "suffix [backtick] a" by (simp only: same_suffix_suffix)
    with ne show False by simp
  next
    assume "sublist fence (a @ [backtick])"
    then have "suffix fence (a @ [backtick]) \<or> sublist fence a"
      by (simp only: sublist_snoc)
    then show False
    proof
      assume "suffix fence (a @ [backtick])"
      then have "suffix ([backtick, backtick] @ [backtick]) (a @ [backtick])"
        by (simp add: fence_def)
      then have "suffix [backtick, backtick] a" by (simp only: same_suffix_suffix)
      then have "suffix [backtick] a"
        by (auto simp: suffix_def)
      with ne show False by simp
    next
      assume "sublist fence a"
      with nf show False by simp
    qed
  qed
qed

lemma fence_not_Nil: "fence \<noteq> []"
  by (simp add: fence_def)

lemma no_fence_left:
  "backtick \<notin> set h \<Longrightarrow> \<not> sublist fence s \<Longrightarrow> \<not> sublist fence (h @ s)"
  by (induction h) (auto simp: sublist_Cons_right fence_def)

lemma no_fence_right:
  assumes "backtick \<notin> set t" "\<not> sublist fence s"
  shows "\<not> sublist fence (s @ t)"
proof -
  have r: "rev fence = fence" by (simp add: fence_def)
  from assms(2) have "\<not> sublist fence (rev s)"
    using sublist_rev[of fence s] by (simp add: r)
  with assms(1) have "\<not> sublist fence (rev t @ rev s)"
    by (intro no_fence_left) simp_all
  then show ?thesis
    using sublist_rev[of fence "s @ t"] by (simp add: r)
qed

lemma code_text_after_language:
  assumes t: "test_language (trim lang)" and n: "newline \<notin> set lang"
  shows "code_text (lang @ [newline] @ rest) = strip_newlines rest"
proof -
  have "\<not> sublist [newline] (lang @ butlast [newline])"
    using n set_mono_sublist[of "[newline]" lang] by auto
  then have "js_split [newline] (lang @ [newline] @ rest) = lang # js_split [newline] rest"
    by (intro js_split_first_match) simp_all
  then show ?thesis using t by (simp add: code_text_def js_join_split)
qed

lemma suffix_backtick_newline: "\<not> suffix [backtick] (s @ [newline])"
  by (simp add: backtick_def newline_def)

lemma suffix_backtick_after_newline:
  assumes "\<not> suffix [backtick] c"
  shows "\<not> suffix [backtick] (h @ [newline] @ c)"
proof (cases c rule: rev_cases)
  case Nil
  then show ?thesis using suffix_backtick_newline[of h] by simp
next
  case (snoc ys y)
  with assms have "y \<noteq> backtick" by (auto simp: suffix_def)
  with snoc show ?thesis by (auto simp: suffix_def)
qed

lemma split_three:
  assumes a: "\<not> sublist fence a" "\<not> suffix [backtick] a"
      and p: "\<not> sublist fence p" "\<not> suffix [backtick] p"
      and b: "\<not> sublist fence b"
  shows "js_split fence (a @ fence @ p @ fence @ b) = [a, p, b]"
proof -
  have "js_split fence (a @ fence @ (p @ fence @ b)) = a # js_split fence (p @ fence @ b)"
    using fence_not_Nil fence_free_prefix[OF a] by (rule js_split_first_match)
  moreover have "js_split fence (p @ fence @ b) = p # js_split fence b"
    using fence_not_Nil fence_free_prefix[OF p] by (rule js_split_first_match)
  moreover have "js_split fence b = [b]"
    using b by (rule js_split_no_match)
  ultimately show ?thesis by simp
qed

section \<open>Claims about the message segmentation\<close>

text \<open>
  Claim C4, as amended. Let \<open>A\<close>, \<open>code\<close> and \<open>B\<close> contain no fence, let neither \<open>A\<close> nor
  \<open>code\<close> end in a backtick, and let \<open>lang\<close> be free of newlines with a trimmed form that
  matches \<^verbatim>\<open>^[A-Za-z0-9_-]+$\<close>. Then the bubble body of \<open>A\<close> + fence + \<open>lang\<close> + newline +
  \<open>code\<close> + fence + \<open>B\<close> is the escaped prose \<open>A\<close>, a code block whose text is \<open>code\<close>
  without its leading newlines, and the escaped prose \<open>B\<close>, in that order; a prose piece
  whose trimmed form is empty is left out. The language line is removed from the code
  block and appears nowhere in the result.
\<close>

theorem fenced_block_nodes:
  assumes "\<not> sublist fence A" and "\<not> suffix [backtick] A"
      and "test_language (trim lang)" and "newline \<notin> set lang"
      and "\<not> sublist fence code" and "\<not> suffix [backtick] code"
      and "\<not> sublist fence B"
  shows "body_nodes (A @ fence @ lang @ [newline] @ code @ fence @ B) =
           (if trim A \<noteq> [] then [Div (escapeHtml A)] else [])
           @ [Pre (strip_newlines code)]
           @ (if trim B \<noteq> [] then [Div (escapeHtml B)] else [])"
proof -
  let ?p = "lang @ [newline] @ code"
  have "backtick \<noteq> newline"
    by (simp add: newline_def backtick_def)
  with language_line_no_backtick[OF assms(3)] have "backtick \<notin> set (lang @ [newline])"
    by simp
  then have "\<not> sublist fence ((lang @ [newline]) @ code)"
    using assms(5) by (rule no_fence_left)
  then have p1: "\<not> sublist fence ?p" by simp
  have p2: "\<not> suffix [backtick] ?p"
    using assms(6) by (rule suffix_backtick_after_newline)
  have "js_split fence (A @ fence @ ?p @ fence @ B) = [A, ?p, B]"
    using assms(1,2) p1 p2 assms(7) by (rule split_three)
  moreover have "code_text ?p = strip_newlines code"
    using assms(3,4) by (rule code_text_after_language)
  ultimately show ?thesis by (simp add: body_nodes_def)
qed

theorem fenced_block_nodes_witness:
  "body_nodes (str ''see '' @ fence @ str ''py'' @ [newline] @ str ''code'' @ fence @ str '' done'')
     = [Div (str ''see ''), Pre (str ''code''), Div (str '' done'')]
   \<and> body_nodes (str '' '' @ fence @ str '' py '' @ [newline] @ (newline # str ''x = `y`;'') @ fence @ [])
     = [Pre (str ''x = `y`;'')]"
proof -
  have f: "\<not> sublist fence (str ''see '')" "\<not> sublist fence (str '' done'')"
          "\<not> sublist fence (str '' '')" "\<not> sublist fence []"
          "\<not> sublist fence (str ''code'')" "\<not> sublist fence (newline # str ''x = `y`;'')"
    by (simp_all add: fence_def backtick_def newline_def str_def sublist_Cons_right)
  have s: "\<not> suffix [backtick] (str ''see '')" "\<not> suffix [backtick] (str '' '')"
          "\<not> suffix [backtick] (str ''code'')" "\<not> suffix [backtick] (newline # str ''x = `y`;'')"
    by (simp_all add: backtick_def newline_def str_def suffix_to_prefix)
  have t: "test_language (trim (str ''py''))" "test_language (trim (str '' py ''))"
    by (simp_all add: test_language_def trim_def isWhiteSpace_def isTagChar_def str_def)
  have n: "newline \<notin> set (str ''py'')" "newline \<notin> set (str '' py '')"
    by (simp_all add: newline_def str_def)
  have b: "trim (str ''see '') \<noteq> []" "trim (str '' done'') \<noteq> []" "trim (str '' '') = []"
          "trim [] = []"
    by (simp_all add: trim_def isWhiteSpace_def str_def)
  have e: "escapeHtml (str ''see '') = str ''see ''" "escapeHtml (str '' done'') = str '' done''"
    by (simp_all add: escapeHtml_def escapeChar_def str_def)
  have c: "strip_newlines (str ''code'') = str ''code''"
          "strip_newlines (newline # str ''x = `y`;'') = str ''x = `y`;''"
    by (simp_all add: strip_newlines_def newline_def str_def)
  show ?thesis
    using fenced_block_nodes[OF f(1) s(1) t(1) n(1) f(5) s(3) f(2)]
          fenced_block_nodes[OF f(3) s(2) t(2) n(2) f(6) s(4) f(4)] b e c
    by simp
qed

text \<open>
  The claim as stated fails in two ways. A body that starts with a newline loses it: for
  the body newline + "x" the code block holds "x". And the language test looks at the
  first line of the piece, not at \<open>lang\<close> as a whole: with \<open>lang\<close> = newline + "py" the
  trimmed form is "py", but the first line is empty, no line is dropped, and the code
  block holds "py", newline, "code".
\<close>

theorem fenced_block_newline_counterexample:
  "test_language (trim (str ''py''))
   \<and> body_nodes (str ''a'' @ fence @ str ''py'' @ [newline] @ (newline # str ''x'') @ fence @ str ''b'')
       = [Div (str ''a''), Pre (str ''x''), Div (str ''b'')]
   \<and> body_nodes (str ''a'' @ fence @ str ''py'' @ [newline] @ (newline # str ''x'') @ fence @ str ''b'')
       \<noteq> [Div (str ''a''), Pre (newline # str ''x''), Div (str ''b'')]
   \<and> test_language (trim (newline # str ''py''))
   \<and> body_nodes (str ''a'' @ fence @ (newline # str ''py'') @ [newline] @ str ''code'' @ fence @ str ''b'')
       = [Div (str ''a''), Pre (str ''py'' @ [newline] @ str ''code''), Div (str ''b'')]
   \<and> body_nodes (str ''a'' @ fence @ (newline # str ''py'') @ [newline] @ str ''code'' @ fence @ str ''b'')
       \<noteq> [Div (str ''a''), Pre (str ''code''), Div (str ''b'')]"
  by (simp add: body_nodes_def str_def fence_def backtick_def newline_def code_text_def trim_def
        test_language_def strip_newlines_def isWhiteSpace_def isTagChar_def escapeHtml_def
        escapeChar_def)

text \<open>
  Claim C5, as amended. The message fence, newline, "foo", newline, fence yields exactly
  one code block, and its text is "foo" followed by the newline that precedes the closing
  fence: only leading newlines are stripped. In general, for a code piece whose first
  line does not match the language pattern after trimming, no line is dropped and the
  text of the block is the piece without its leading newlines.
\<close>

theorem bare_fence_keeps_lines:
  "body_nodes (fence @ [newline] @ str ''foo'' @ [newline] @ fence) = [Pre (str ''foo'' @ [newline])]
   \<and> (\<forall>part. \<not> test_language (trim (hd (js_split [newline] part)))
         \<longrightarrow> code_text part = strip_newlines part)"
proof
  show "body_nodes (fence @ [newline] @ str ''foo'' @ [newline] @ fence)
          = [Pre (str ''foo'' @ [newline])]"
    by (simp add: body_nodes_def str_def fence_def backtick_def newline_def code_text_def
          trim_def test_language_def strip_newlines_def isWhiteSpace_def isTagChar_def)
next
  show "\<forall>part. \<not> test_language (trim (hd (js_split [newline] part)))
          \<longrightarrow> code_text part = strip_newlines part"
    by (simp add: code_text_def js_join_split)
qed

theorem bare_fence_keeps_lines_witness:
  "\<not> test_language (trim (hd (js_split [newline] (newline # str ''foo'' @ [newline]))))
   \<and> code_text (newline # str ''foo'' @ [newline]) = str ''foo'' @ [newline]"
proof -
  have h: "\<not> test_language (trim (hd (js_split [newline] (newline # str ''foo'' @ [newline]))))"
    by (simp add: str_def newline_def trim_def test_language_def)
  have "strip_newlines (newline # str ''foo'' @ [newline]) = str ''foo'' @ [newline]"
    by (simp add: strip_newlines_def str_def newline_def)
  with h bare_fence_keeps_lines show ?thesis by simp
qed

text \<open>The body is not the bare word: the trailing newline stays in the block.\<close>

theorem bare_fence_counterexample:
  "body_nodes (fence @ [newline] @ str ''foo'' @ [newline] @ fence) \<noteq> [Pre (str ''foo'')]"
  by (simp add: body_nodes_def str_def fence_def backtick_def newline_def code_text_def
        trim_def test_language_def strip_newlines_def isWhiteSpace_def isTagChar_def)

section \<open>Claims about requests\<close>

text \<open>
  Claim C6. When \<^verbatim>\<open>fetch\<close> delivers a response whose status is not a success,
  \<^verbatim>\<open>postJson\<close> (used for both endpoints) throws an Error whose message is the body
  text if that is non-empty and "HTTP " followed by the status code otherwise. When
  the status is a success and the body does not decode as JSON, \<^verbatim>\<open>postJson\<close> returns
  the object that carries the body text under \<^verbatim>\<open>raw\<close>; it does not throw.
\<close>

theorem postJson_outcome:
  assumes "reply e = Inr res"
  shows "(\<not> res_ok res \<and> res_text res \<noteq> []
            \<longrightarrow> fst (postJson url data e st) = Inl (Error (res_text res)))
       \<and> (\<not> res_ok res \<and> res_text res = []
            \<longrightarrow> fst (postJson url data e st) = Inl (Error (str ''HTTP '' @ digits (res_status res))))
       \<and> (res_ok res \<and> json_parse e (res_text res) = None
            \<longrightarrow> fst (postJson url data e st) = Inr (JObj [(str ''raw'', JStr (res_text res))]))"
  using assms by (simp add: postJson_def Let_def)

theorem postJson_outcome_witness:
  "fst (postJson (str ''/check'') JNull env0 page0) = Inl (Error (str ''boom''))
   \<and> fst (postJson (str ''/check'') JNull
           (env0\<lparr>reply := Inr \<lparr>res_status = 500, res_text = []\<rparr>\<rparr>) page0)
       = Inl (Error (str ''HTTP 500''))
   \<and> fst (postJson (str ''/agent'') JNull
           (env0\<lparr>reply := Inr \<lparr>res_status = 200, res_text = str ''<html>''\<rparr>\<rparr>) page0)
       = Inr (JObj [(str ''raw'', JStr (str ''<html>''))])"
proof -
  have d: "digits 500 = str ''500''"
    by (simp add: digits.simps str_def)
  have n: "str ''boom'' \<noteq> []" by (simp add: str_def)
  show ?thesis
    using postJson_outcome[of env0 "\<lparr>res_status = 500, res_text = str ''boom''\<rparr>"
            "str ''/check''" JNull page0]
          postJson_outcome[of "env0\<lparr>reply := Inr \<lparr>res_status = 500, res_text = []\<rparr>\<rparr>"
            "\<lparr>res_status = 500, res_text = []\<rparr>" "str ''/check''" JNull page0]
          postJson_outcome[of "env0\<lparr>reply := Inr \<lparr>res_status = 200, res_text = str ''<html>''\<rparr>\<rparr>"
            "\<lparr>res_status = 200, res_text = str ''<html>''\<rparr>" "str ''/agent''" JNull page0]
          d n
    by (simp add: env0_def res_ok_def str_def)
qed

text \<open>
  Claim C10. When the chat message is empty after trimming, \<^verbatim>\<open>sendChat\<close> leaves the whole
  page as it is: transcript, session store, input field, and the list of requests. When
  the code input is empty after trimming, \<^verbatim>\<open>runCheck\<close> sends no request and changes
  nothing but the result summary, which becomes the prompt that code must be entered;
  the violations, fixed-code and diff panels keep their content.
\<close>

theorem blank_input_sends_nothing:
  "(trim (chatInput st) = [] \<longrightarrow> sendChat e st = st)
   \<and> (trim (codeInput st) = []
        \<longrightarrow> runCheck e st = st\<lparr>resultSummary := text_code_required\<rparr>
          \<and> requests (runCheck e st) = requests st
          \<and> violationsEl (runCheck e st) = violationsEl st
          \<and> fixedCodeEl (runCheck e st) = fixedCodeEl st
          \<and> unifiedDiffEl (runCheck e st) = unifiedDiffEl st)"
  by (simp add: sendChat_def runCheck_def Let_def)

theorem blank_input_sends_nothing_witness:
  "sendChat env0 (page0\<lparr>chatInput := str '' '' @ [newline]\<rparr>) = page0\<lparr>chatInput := str '' '' @ [newline]\<rparr>
   \<and> requests (runCheck env0 (page0\<lparr>codeInput := str ''  ''\<rparr>)) = []
   \<and> resultSummary (runCheck env0 (page0\<lparr>codeInput := str ''  ''\<rparr>)) = text_code_required"
proof -
  have b: "trim (str '' '' @ [newline]) = []" "trim (str ''  '') = []"
    by (simp_all add: trim_def isWhiteSpace_def str_def newline_def)
  show ?thesis
    using blank_input_sends_nothing[of "page0\<lparr>chatInput := str '' '' @ [newline]\<rparr>" env0]
          blank_input_sends_nothing[of "page0\<lparr>codeInput := str ''  ''\<rparr>" env0] b
    by (simp add: page0_def)
qed

section \<open>Claims about the session id store\<close>

lemma render_vios_store: "localStorage (snd (render_vios e vs st)) = localStorage st"
  by (induction vs arbitrary: st) (auto split: sum.splits)

lemma renderCheckResult_store: "localStorage (snd (renderCheckResult e result st)) = localStorage st"
  by (simp add: renderCheckResult_def Let_def render_vios_store)

lemma postJson_store: "localStorage (snd (postJson url data e st)) = localStorage st"
  by (simp add: postJson_def Let_def split: sum.splits option.splits)

lemma appendBubble_store: "localStorage (appendBubble role text meta now_text st) = localStorage st"
  by (simp add: appendBubble_def)

lemma getSessionId_store:
  "localStorage (snd (getSessionId rnd st))
     = (localStorage st)(STORAGE_KEY \<mapsto> fst (getSessionId rnd st))"
  by (simp add: getSessionId_def Let_def)

lemma sendChat_store:
  "localStorage (sendChat e st)
     = (if trim (chatInput st) = [] then localStorage st
        else localStorage (snd (getSessionId (random_hex e) st)))"
proof (cases "trim (chatInput st) = []")
  case True
  then show ?thesis by (simp add: sendChat_def Let_def)
next
  case False
  obtain sid st1 where g: "getSessionId (random_hex e) st = (sid, st1)"
    by (cases "getSessionId (random_hex e) st")
  let ?st4 = "appendBubble (str ''assistant'') text_thinking
                (Some (str ''loading-'' @ digits (date_now e))) (clock e)
                ((appendBubble (str ''user'') (chatInput st) None (clock e) st1)\<lparr>chatInput := []\<rparr>)"
  let ?data = "JObj [(str ''session_id'', JStr sid), (str ''input'', JStr (chatInput st)),
                     (str ''debug'', JBool False)]"
  obtain out st5 where q: "postJson (str ''/agent'') ?data e ?st4 = (out, st5)"
    by (cases "postJson (str ''/agent'') ?data e ?st4")
  have "localStorage st5 = localStorage ?st4"
    using postJson_store[of "str ''/agent''" ?data e ?st4] q by simp
  then have s5: "localStorage st5 = localStorage st1"
    by (simp add: appendBubble_def)
  have "localStorage (sendChat e st) = localStorage st5"
    using False g q by (cases "answer_text e out") (simp_all add: sendChat_def Let_def appendBubble_store)
  with s5 g show ?thesis using False by simp
qed

lemma runCheck_store:
  "localStorage (runCheck e st)
     = (if trim (codeInput st) = [] then localStorage st
        else localStorage (snd (getSessionId (random_hex e) st)))"
proof (cases "trim (codeInput st) = []")
  case True
  then show ?thesis by (simp add: runCheck_def Let_def)
next
  case False
  obtain sid st1 where g: "getSessionId (random_hex e) st = (sid, st1)"
    by (cases "getSessionId (random_hex e) st")
  let ?st2 = "st1\<lparr>resultSummary := text_running, violationsEl := [],
                   fixedCodeEl := [], unifiedDiffEl := []\<rparr>"
  obtain out st3 where q: "postJson (str ''/check'') (check_request sid (codeInput st) ?st2) e ?st2
                             = (out, st3)"
    by (cases "postJson (str ''/check'') (check_request sid (codeInput st) ?st2) e ?st2")
  have s3: "localStorage st3 = localStorage st1"
    using postJson_store[of "str ''/check''" "check_request sid (codeInput st) ?st2" e ?st2] q
    by simp
  have "localStorage (runCheck e st) = localStorage st3"
  proof (cases out)
    case (Inl err)
    with False g q show ?thesis by (simp add: runCheck_def Let_def)
  next
    case (Inr v)
    obtain r st4 where k: "renderCheckResult e v st3 = (r, st4)"
      by (cases "renderCheckResult e v st3")
    have "localStorage st4 = localStorage st3"
      using renderCheckResult_store[of e v st3] k by simp
    with False g q Inr k show ?thesis
      by (cases r) (simp_all add: runCheck_def Let_def)
  qed
  with s3 False g show ?thesis by simp
qed

text \<open>
  Claim C8, as amended. The session id entry of the store is written only by
  \<^verbatim>\<open>getSessionId\<close> and by an edit of the session id field. Every call of
  \<^verbatim>\<open>getSessionId\<close> writes it, with the id the call returns, whether that id was
  synthesized or read from the field; when the trimmed field is non-empty the call
  returns the trimmed value, and the store is left as it was exactly when it already held
  that value. An edit of the field writes the entry when the trimmed value is non-empty
  and leaves the store alone otherwise. Nothing else changes the store:
  \<^verbatim>\<open>loadSessionId\<close>, \<^verbatim>\<open>appendBubble\<close>, \<^verbatim>\<open>clearChat\<close>, \<^verbatim>\<open>setMode\<close>, \<^verbatim>\<open>postJson\<close>,
  \<^verbatim>\<open>renderCheckResult\<close> and \<^verbatim>\<open>pasteResultToChat\<close> leave it as it is, and \<^verbatim>\<open>sendChat\<close>
  and \<^verbatim>\<open>runCheck\<close> change it by their one call of \<^verbatim>\<open>getSessionId\<close> and not at all on
  blank input.
\<close>

theorem session_store_writes:
  "localStorage (snd (getSessionId rnd st))
     = (localStorage st)(STORAGE_KEY \<mapsto> fst (getSessionId rnd st))
   \<and> (trim (sessionIdInput st) \<noteq> [] \<longrightarrow>
        fst (getSessionId rnd st) = trim (sessionIdInput st)
        \<and> (localStorage (snd (getSessionId rnd st)) = localStorage st
             \<longleftrightarrow> localStorage st STORAGE_KEY = Some (trim (sessionIdInput st))))
   \<and> localStorage (sessionId_change typed st)
       = (if trim typed \<noteq> [] then (localStorage st)(STORAGE_KEY \<mapsto> trim typed)
          else localStorage st)
   \<and> localStorage (loadSessionId rnd st) = localStorage st
   \<and> localStorage (appendBubble role text meta now_text st) = localStorage st
   \<and> localStorage (clearChat now_text st) = localStorage st
   \<and> localStorage (setMode m st) = localStorage st
   \<and> localStorage (snd (postJson url data e st)) = localStorage st
   \<and> localStorage (snd (renderCheckResult e result st)) = localStorage st
   \<and> localStorage (pasteResultToChat now_text st) = localStorage st
   \<and> localStorage (sendChat e st)
       = (if trim (chatInput st) = [] then localStorage st
          else localStorage (snd (getSessionId (random_hex e) st)))
   \<and> localStorage (runCheck e st)
       = (if trim (codeInput st) = [] then localStorage st
          else localStorage (snd (getSessionId (random_hex e) st)))"
proof -
  have 1: "localStorage (snd (getSessionId rnd st))
             = (localStorage st)(STORAGE_KEY \<mapsto> fst (getSessionId rnd st))"
    by (rule getSessionId_store)
  have 2: "trim (sessionIdInput st) \<noteq> [] \<longrightarrow>
        fst (getSessionId rnd st) = trim (sessionIdInput st)
        \<and> (localStorage (snd (getSessionId rnd st)) = localStorage st
             \<longleftrightarrow> localStorage st STORAGE_KEY = Some (trim (sessionIdInput st)))"
  proof
    assume ne: "trim (sessionIdInput st) \<noteq> []"
    then have f: "fst (getSessionId rnd st) = trim (sessionIdInput st)"
      by (simp add: getSessionId_def Let_def)
    have "((localStorage st)(STORAGE_KEY \<mapsto> trim (sessionIdInput st)) = localStorage st)
            \<longleftrightarrow> localStorage st STORAGE_KEY = Some (trim (sessionIdInput st))"
      by (metis fun_upd_same fun_upd_triv)
    with 1 f show "fst (getSessionId rnd st) = trim (sessionIdInput st)
        \<and> (localStorage (snd (getSessionId rnd st)) = localStorage st
             \<longleftrightarrow> localStorage st STORAGE_KEY = Some (trim (sessionIdInput st)))"
      by simp
  qed
  have 3: "localStorage (sessionId_change typed st)
       = (if trim typed \<noteq> [] then (localStorage st)(STORAGE_KEY \<mapsto> trim typed)
          else localStorage st)"
    by (simp add: sessionId_change_def Let_def)
  have 4: "localStorage (loadSessionId rnd st) = localStorage st"
    by (simp add: loadSessionId_def split: option.splits)
  have 5: "localStorage (clearChat now_text st) = localStorage st"
    by (simp add: clearChat_def appendBubble_store)
  have 6: "localStorage (setMode m st) = localStorage st"
    by (simp add: setMode_def)
  have 7: "localStorage (pasteResultToChat now_text st) = localStorage st"
    by (simp add: pasteResultToChat_def setMode_def appendBubble_store)
  show ?thesis
    by (intro conjI 1 2 3 4 5 6 7 appendBubble_store postJson_store renderCheckResult_store
          sendChat_store runCheck_store)
qed

theorem session_store_writes_witness:
  "localStorage (snd (getSessionId (str ''0.77'') (page0\<lparr>sessionIdInput := str '' team-a ''\<rparr>))) STORAGE_KEY
     = Some (str ''team-a'')
   \<and> localStorage (snd (getSessionId (str ''0.77'')
         (page0\<lparr>sessionIdInput := str '' team-a '', localStorage := [STORAGE_KEY \<mapsto> str ''team-a'']\<rparr>)))
     = [STORAGE_KEY \<mapsto> str ''team-a'']"
proof -
  have t: "trim (str '' team-a '') = str ''team-a''"
    by (simp add: trim_def isWhiteSpace_def str_def)
  have n: "str ''team-a'' \<noteq> []" by (simp add: str_def)
  show ?thesis
    using session_store_writes[of "str ''0.77''" "page0\<lparr>sessionIdInput := str '' team-a ''\<rparr>" "[]"]
          session_store_writes[of "str ''0.77''"
            "page0\<lparr>sessionIdInput := str '' team-a '', localStorage := [STORAGE_KEY \<mapsto> str ''team-a'']\<rparr>" "[]"]
          t n
    by (simp add: page0_def)
qed

text \<open>
  The claim as stated fails on first use: with an empty store \<^verbatim>\<open>loadSessionId\<close> puts a
  fresh id into the field without storing it, and the next \<^verbatim>\<open>getSessionId\<close>, which finds
  the field non-empty, writes the entry.
\<close>

theorem first_use_writes_store_counterexample:
  "trim (sessionIdInput (loadSessionId (str ''0.3a5f9c2e1b7d4'') page0)) \<noteq> []
   \<and> localStorage (loadSessionId (str ''0.3a5f9c2e1b7d4'') page0) STORAGE_KEY = None
   \<and> localStorage (snd (getSessionId (str ''0.77'') (loadSessionId (str ''0.3a5f9c2e1b7d4'') page0)))
        STORAGE_KEY = Some (str ''demo-3a5f9c2e'')"
  by (simp add: loadSessionId_def getSessionId_def page0_def fresh_id_def slice_def trim_def
        isWhiteSpace_def str_def Let_def)

section \<open>Claims about the check result\<close>

text \<open>
  Claim C1, as amended. For every response value other than \<^verbatim>\<open>null\<close> that has none of
  the fields summary, violations, fixed_code and unified_diff, \<^verbatim>\<open>renderCheckResult\<close>
  completes without an exception; the summary is the placeholder literal of the script,
  "(summary " followed by the Korean word for "none" and ")"; the violation sequence is
  empty and the violations panel shows the single muted placeholder; the fixed code and
  the diff are the empty string.
\<close>

theorem renderCheckResult_no_fields:
  assumes "result \<noteq> JNull"
      and "field result (str ''summary'') = None"
      and "field result (str ''violations'') = None"
      and "field result (str ''fixed_code'') = None"
      and "field result (str ''unified_diff'') = None"
  shows "renderCheckResult e result st =
           (None, st\<lparr>resultSummary := text_no_summary,
                      violationsEl := [Muted text_no_violation],
                      fixedCodeEl := [], unifiedDiffEl := []\<rparr>)
         \<and> violations_of result = []"
  using assms by (simp add: renderCheckResult_def violations_of_def or_else_def Let_def)

theorem renderCheckResult_no_fields_witness:
  "renderCheckResult env0 (JObj []) page0 =
     (None, page0\<lparr>resultSummary := text_no_summary, violationsEl := [Muted text_no_violation],
                  fixedCodeEl := [], unifiedDiffEl := []\<rparr>)
   \<and> renderCheckResult env0 (JObj [(str ''raw'', JStr (str ''<html>''))]) page0 =
     (None, page0\<lparr>resultSummary := text_no_summary, violationsEl := [Muted text_no_violation],
                  fixedCodeEl := [], unifiedDiffEl := []\<rparr>)"
proof -
  have k: "str ''raw'' \<noteq> str ''summary''" "str ''raw'' \<noteq> str ''violations''"
          "str ''raw'' \<noteq> str ''fixed_code''" "str ''raw'' \<noteq> str ''unified_diff''"
    by (simp_all add: str_def)
  show ?thesis
    using renderCheckResult_no_fields[of "JObj []" env0 page0]
          renderCheckResult_no_fields[of "JObj [(str ''raw'', JStr (str ''<html>''))]" env0 page0] k
    by simp
qed

text \<open>The placeholder is not the English text "no summary".\<close>

theorem summary_placeholder_counterexample:
  "resultSummary (snd (renderCheckResult env0 (JObj []) page0)) \<noteq> str ''no summary''"
  by (simp add: renderCheckResult_def violations_of_def or_else_def text_no_summary_def str_def)

lemma toLowerCase_warning: "toLowerCase e (str ''warning'') = str ''warning''"
  by (simp add: toLowerCase_def isAscii_def lowerChar_def str_def)

lemma make_vio_badge:
  "make_vio e v = Inr box \<Longrightarrow> \<exists>sev. vio_sev e v = Inr sev \<and> vio_badge box = escapeHtml sev"
  by (auto simp: make_vio_def split: sum.splits)

lemma make_vio_line:
  "make_vio e v = Inr box \<Longrightarrow> vio_line_html box = escapeHtml (vio_line e v)"
  by (auto simp: make_vio_def split: sum.splits)

text \<open>
  Claim C2, as amended. For every violation entry other than \<^verbatim>\<open>null\<close>, the displayed
  severity is the literal "warning" whenever the raw severity is absent or falsy (empty,
  \<^verbatim>\<open>null\<close>, zero, false), and it is the raw severity in lower case whenever that is a
  non-empty string, whether or not it is one of info, warning, error, unknown: no set of
  recognized values is consulted. The badge of the box shows that severity.
\<close>

theorem vio_sev_lowercase:
  assumes "v \<noteq> JNull"
  shows "(\<not> truthy_opt (field v (str ''severity'')) \<longrightarrow> vio_sev e v = Inr (str ''warning''))
       \<and> (field v (str ''severity'') = Some (JStr s) \<and> s \<noteq> []
            \<longrightarrow> vio_sev e v = Inr (toLowerCase e s))
       \<and> (make_vio e v = Inr box
            \<longrightarrow> (\<exists>sev. vio_sev e v = Inr sev \<and> vio_badge box = escapeHtml sev))"
proof (intro conjI impI)
  assume "\<not> truthy_opt (field v (str ''severity''))"
  with assms show "vio_sev e v = Inr (str ''warning'')"
    by (auto simp: vio_sev_def or_else_def truthy_opt_def toLowerCase_warning split: option.splits)
next
  assume "field v (str ''severity'') = Some (JStr s) \<and> s \<noteq> []"
  with assms show "vio_sev e v = Inr (toLowerCase e s)"
    by (simp add: vio_sev_def or_else_def)
next
  assume "make_vio e v = Inr box"
  then show "\<exists>sev. vio_sev e v = Inr sev \<and> vio_badge box = escapeHtml sev"
    by (rule make_vio_badge)
qed

theorem vio_sev_lowercase_witness:
  "vio_sev env0 (JObj [(str ''rule_id'', JStr (str ''PY-1''))]) = Inr (str ''warning'')
   \<and> vio_sev env0 (JObj [(str ''severity'', JStr (str ''Error''))]) = Inr (str ''error'')
   \<and> vio_sev (env0\<lparr>lower_case := (\<lambda>s. [0xE9])\<rparr>) (JObj [(str ''severity'', JStr [0xC9])])
       = Inr [0xE9]"
proof -
  have k: "str ''rule_id'' \<noteq> str ''severity''" "str ''Error'' \<noteq> []"
          "toLowerCase env0 (str ''Error'') = str ''error''"
          "toLowerCase (env0\<lparr>lower_case := (\<lambda>s. [0xE9])\<rparr>) [0xC9] = [0xE9]"
    by (simp_all add: str_def isAscii_def toLowerCase_def lowerChar_def)
  show ?thesis
    using vio_sev_lowercase[of "JObj [(str ''rule_id'', JStr (str ''PY-1''))]" env0 "[]"]
          vio_sev_lowercase[of "JObj [(str ''severity'', JStr (str ''Error''))]" env0 "str ''Error''"]
          vio_sev_lowercase[of "JObj [(str ''severity'', JStr [0xC9])]"
            "env0\<lparr>lower_case := (\<lambda>s. [0xE9])\<rparr>" "[0xC9]"] k
    by (simp add: truthy_opt_def)
qed

text \<open>An unrecognized severity is displayed in lower case, not as "warning".\<close>

theorem unrecognized_severity_counterexample:
  "vio_sev env0 (JObj [(str ''severity'', JStr (str ''CRITICAL''))]) = Inr (str ''critical'')
   \<and> vio_sev env0 (JObj [(str ''severity'', JStr (str ''CRITICAL''))]) \<noteq> Inr (str ''warning'')"
  by (simp add: vio_sev_def or_else_def toLowerCase_def isAscii_def lowerChar_def str_def)

text \<open>
  Claim C7, as amended. The displayed line range of a violation is "start~end" when
  start_line and end_line are both present and not zero, "start" when start_line is
  present and not zero while end_line is absent or falsy, and "-" when start_line is
  absent or falsy, whatever end_line is. A line number is printed as JavaScript prints
  the number: in its decimal digits when its magnitude is below \<open>2\<^sup>5\<^sup>3\<close>, and as the
  library prints the double beyond that. The box shows that text.
\<close>

theorem vio_line_cases:
  "(field v (str ''start_line'') = Some (JNum a) \<and> a \<noteq> 0
      \<and> field v (str ''end_line'') = Some (JNum b) \<and> b \<noteq> 0
      \<longrightarrow> vio_line e v = number_to_string e a @ str ''~'' @ number_to_string e b)
   \<and> (field v (str ''start_line'') = Some (JNum a) \<and> a \<noteq> 0
        \<and> \<not> truthy_opt (field v (str ''end_line''))
      \<longrightarrow> vio_line e v = number_to_string e a)
   \<and> (\<not> truthy_opt (field v (str ''start_line'')) \<longrightarrow> vio_line e v = str ''-'')
   \<and> (\<bar>a\<bar> < 2 ^ 53 \<longrightarrow> number_to_string e a = decimal a)
   \<and> (\<not> \<bar>a\<bar> < 2 ^ 53 \<longrightarrow> number_to_string e a = number_text e a)
   \<and> (make_vio e v = Inr box \<longrightarrow> vio_line_html box = escapeHtml (vio_line e v))"
  by (auto simp: vio_line_def truthy_opt_def to_string_opt_def number_to_string_def Let_def
        make_vio_line)

theorem vio_line_cases_witness:
  "vio_line env0 (JObj [(str ''start_line'', JNum 3), (str ''end_line'', JNum 5)]) = str ''3~5''
   \<and> vio_line env0 (JObj [(str ''start_line'', JNum 3)]) = str ''3''
   \<and> vio_line env0 (JObj []) = str ''-''
   \<and> vio_line env0 (JObj [(str ''start_line'', JNum (10 ^ 21))]) = str ''1e+21''"
proof -
  have k: "str ''start_line'' \<noteq> str ''end_line''"
          "decimal 3 = str ''3''" "decimal 5 = str ''5''"
          "number_text env0 (10 ^ 21) = str ''1e+21''"
    by (simp_all add: str_def decimal_def digits.simps env0_def)
  show ?thesis
    using vio_line_cases[of "JObj [(str ''start_line'', JNum 3), (str ''end_line'', JNum 5)]" 3 5 env0]
          vio_line_cases[of "JObj [(str ''start_line'', JNum 3), (str ''end_line'', JNum 5)]" 5 5 env0]
          vio_line_cases[of "JObj [(str ''start_line'', JNum 3)]" 3 0 env0]
          vio_line_cases[of "JObj []" 0 0 env0]
          vio_line_cases[of "JObj [(str ''start_line'', JNum (10 ^ 21))]" "10 ^ 21" 0 env0] k
    by (simp add: truthy_opt_def str_def)
qed

text \<open>A start line of 0 counts as absent: the range 0 to 5 is displayed as "-".\<close>

theorem line_zero_counterexample:
  "vio_line env0 (JObj [(str ''start_line'', JNum 0), (str ''end_line'', JNum 5)]) = str ''-''
   \<and> vio_line env0 (JObj [(str ''start_line'', JNum 0), (str ''end_line'', JNum 5)]) \<noteq> str ''0~5''"
  by (simp add: vio_line_def truthy_opt_def str_def Let_def)

section \<open>Claims about the synthesized session id\<close>

text \<open>
  Claim C3 at an input where it fails. \<^verbatim>\<open>Math.random()\<close> may return 0.5, whose text in
  base 16 is "0.8". With an empty session id field, \<^verbatim>\<open>slice(2, 10)\<close> then finds one
  digit instead of eight, and \<^verbatim>\<open>getSessionId\<close> returns "demo-8", which does not match
  \<^verbatim>\<open>^demo-[0-9a-f]{8}$\<close>.
\<close>

theorem getSessionId_short_random:
  "trim (sessionIdInput page0) = []
   \<and> fst (getSessionId (str ''0.8'') page0) = str ''demo-8''
   \<and> \<not> matches_demo_pattern (fst (getSessionId (str ''0.8'') page0))"
  by (simp add: getSessionId_def page0_def fresh_id_def slice_def trim_def
        matches_demo_pattern_def str_def Let_def)

lemma trim_id:
  assumes "s \<noteq> []" "\<not> isWhiteSpace (hd s)" "\<not> isWhiteSpace (last s)"
  shows "trim s = s"
proof -
  from assms(1,2) have "dropWhile isWhiteSpace s = s" by (cases s) auto
  moreover from assms(1,3) have "dropWhile isWhiteSpace (rev s) = rev s"
    by (cases "rev s") (auto simp: last_rev[symmetric] simp del: last_rev)
  ultimately show ?thesis by (simp add: trim_def)
qed

lemma hex_not_space: "isHexDigit c \<Longrightarrow> \<not> isWhiteSpace c"
  by (auto simp: isHexDigit_def isWhiteSpace_def word_le_nat_alt)

lemma trim_fresh_id:
  assumes "list_all isHexDigit (slice 2 10 rnd)"
  shows "trim (fresh_id rnd) = fresh_id rnd"
proof (rule trim_id)
  show "fresh_id rnd \<noteq> []" by (simp add: fresh_id_def str_def)
  show "\<not> isWhiteSpace (hd (fresh_id rnd))"
    by (simp add: fresh_id_def str_def isWhiteSpace_def)
  show "\<not> isWhiteSpace (last (fresh_id rnd))"
  proof (cases "slice 2 10 rnd = []")
    case True
    then show ?thesis by (simp add: fresh_id_def str_def isWhiteSpace_def)
  next
    case False
    with assms have "isHexDigit (last (slice 2 10 rnd))"
      by (simp add: list_all_iff)
    with False show ?thesis by (simp add: fresh_id_def hex_not_space)
  qed
qed

text \<open>
  What does hold of a synthesized id. If the field is empty after trimming and the
  characters that \<^verbatim>\<open>slice(2, 10)\<close> takes from the random text are lower-case hexadecimal
  digits, then \<^verbatim>\<open>getSessionId\<close> returns "demo-" followed by those characters, every later
  call without an edit in between returns the same id, and the id matches
  \<^verbatim>\<open>^demo-[0-9a-f]{8}$\<close> provided the random text has at least ten characters ("0." and
  eight digits).
\<close>

theorem fresh_session_id_stable:
  assumes "trim (sessionIdInput st) = []" and "list_all isHexDigit (slice 2 10 rnd)"
  shows "fst (getSessionId rnd st) = fresh_id rnd
       \<and> fst (getSessionId rnd' (snd (getSessionId rnd st))) = fst (getSessionId rnd st)
       \<and> (10 \<le> length rnd \<longrightarrow> matches_demo_pattern (fst (getSessionId rnd st)))"
proof (intro conjI impI)
  show f: "fst (getSessionId rnd st) = fresh_id rnd"
    using assms(1) by (simp add: getSessionId_def Let_def)
  have "sessionIdInput (snd (getSessionId rnd st)) = fresh_id rnd"
    using assms(1) by (simp add: getSessionId_def Let_def)
  moreover have "fresh_id rnd \<noteq> []" by (simp add: fresh_id_def str_def)
  ultimately show "fst (getSessionId rnd' (snd (getSessionId rnd st))) = fst (getSessionId rnd st)"
    using trim_fresh_id[OF assms(2)] f by (simp add: getSessionId_def[of rnd'] Let_def)
next
  assume "10 \<le> length rnd"
  then have "length (slice 2 10 rnd) = 8" by (simp add: slice_def)
  moreover have "fst (getSessionId rnd st) = fresh_id rnd"
    using assms(1) by (simp add: getSessionId_def Let_def)
  ultimately show "matches_demo_pattern (fst (getSessionId rnd st))"
    using assms(2) by (simp add: matches_demo_pattern_def fresh_id_def str_def)
qed

theorem fresh_session_id_stable_witness:
  "fst (getSessionId (str ''0.3a5f9c2e1b7d4'') page0) = str ''demo-3a5f9c2e''
   \<and> fst (getSessionId (str ''0.8'') (snd (getSessionId (str ''0.3a5f9c2e1b7d4'') page0)))
       = str ''demo-3a5f9c2e''
   \<and> matches_demo_pattern (str ''demo-3a5f9c2e'')"
proof -
  have h: "trim (sessionIdInput page0) = []"
          "list_all isHexDigit (slice 2 10 (str ''0.3a5f9c2e1b7d4''))"
          "fresh_id (str ''0.3a5f9c2e1b7d4'') = str ''demo-3a5f9c2e''"
          "10 \<le> length (str ''0.3a5f9c2e1b7d4'')"
    by (simp_all add: page0_def trim_def slice_def isHexDigit_def fresh_id_def str_def)
  note t = fresh_session_id_stable[OF h(1,2), of "str ''0.8''"]
  have a: "fst (getSessionId (str ''0.3a5f9c2e1b7d4'') page0) = str ''demo-3a5f9c2e''"
    using t[THEN conjunct1] h(3) by (rule trans)
  have b: "fst (getSessionId (str ''0.8'') (snd (getSessionId (str ''0.3a5f9c2e1b7d4'') page0)))
             = str ''demo-3a5f9c2e''"
    using t[THEN conjunct2, THEN conjunct1] a by (rule trans)
  have c: "matches_demo_pattern (str ''demo-3a5f9c2e'')"
    using t[THEN conjunct2, THEN conjunct2, THEN mp, OF h(4)] unfolding a .
  from a b c show ?thesis by (intro conjI)
qed

section \<open>Further facts about the rendering\<close>

text \<open>
  A message without a fence is rendered as one prose node holding the whole escaped text,
  blank or not.
\<close>

theorem plain_text_one_node:
  assumes "\<not> sublist fence text"
  shows "body_nodes text = [Div (escapeHtml text)]"
  using js_split_no_match[OF assms] by (simp add: body_nodes_def)

theorem plain_text_one_node_witness:
  "body_nodes (str ''a < b'') = [Div (str ''a &lt; b'')] \<and> body_nodes [] = [Div []]"
proof -
  have f: "\<not> sublist fence (str ''a < b'')" "\<not> sublist fence []"
    by (simp_all add: fence_def backtick_def str_def sublist_Cons_right)
  have e: "escapeHtml (str ''a < b'') = str ''a &lt; b''" "escapeHtml [] = []"
    by (simp_all add: escapeHtml_def escapeChar_def str_def)
  show ?thesis
    using plain_text_one_node[OF f(1)] plain_text_one_node[OF f(2)] e by simp
qed

text \<open>
  A fenced piece that is a single word is read as a language line: the line is dropped
  and the code block is empty.
\<close>

theorem one_word_block_is_empty:
  "body_nodes (fence @ str ''foo'' @ fence) = [Pre []]"
  by (simp add: body_nodes_def str_def fence_def backtick_def newline_def code_text_def
        trim_def test_language_def strip_newlines_def isWhiteSpace_def isTagChar_def)

text \<open>A violations field that is not an array counts as no violations.\<close>

theorem violations_not_a_list:
  assumes "\<And>vs. field result (str ''violations'') \<noteq> Some (JArr vs)"
  shows "violations_of result = []"
  using assms by (auto simp: violations_of_def split: option.splits json.splits)

theorem violations_not_a_list_witness:
  "violations_of (JObj [(str ''violations'', JStr (str ''not-a-list''))]) = []"
  using violations_not_a_list[of "JObj [(str ''violations'', JStr (str ''not-a-list''))]"]
  by simp

text \<open>
  What \<^verbatim>\<open>pasteResultToChat\<close> puts into the chat when the diff panel is blank and the
  fixed code is not, for a summary and a fixed code without fences: the prose up to the
  label, and one code block. The block holds the fixed code without its leading newlines
  and with the newline that the message puts before the closing fence; the "python" line
  is dropped, and the blank line after the closing fence makes no node.
\<close>

theorem pasted_result_nodes:
  assumes "\<not> sublist fence summary" and "\<not> sublist fence fixed" and "trim fixed \<noteq> []"
      and "trim diff = []"
  shows "body_nodes (paste_message summary fixed diff) =
           [Div (escapeHtml (text_result_header @ summary @ [newline, newline]
                             @ str ''fixed_code:'' @ [newline])),
            Pre (strip_newlines (fixed @ [newline]))]"
proof -
  let ?a = "text_result_header @ summary @ [newline, newline] @ str ''fixed_code:'' @ [newline]"
  let ?p = "str ''python'' @ [newline] @ (fixed @ [newline])"
  have msg: "paste_message summary fixed diff = ?a @ fence @ ?p @ fence @ [newline]"
    using assms(3,4) by (simp add: paste_message_def)
  have h: "backtick \<notin> set text_result_header"
          "backtick \<notin> set ([newline, newline] @ str ''fixed_code:'' @ [newline])"
          "backtick \<notin> set (str ''python'' @ [newline])" "backtick \<notin> set [newline]"
    by (simp_all add: text_result_header_def backtick_def newline_def str_def)
  have "\<not> sublist fence (summary @ ([newline, newline] @ str ''fixed_code:'' @ [newline]))"
    using h(2) assms(1) by (rule no_fence_right)
  with h(1) have "\<not> sublist fence (text_result_header @ summary @ ([newline, newline]
          @ str ''fixed_code:'' @ [newline]))"
    by (rule no_fence_left)
  then have a1: "\<not> sublist fence ?a" by simp
  have a2: "\<not> suffix [backtick] ?a"
    using suffix_backtick_newline[of "text_result_header @ summary @ [newline, newline] @ str ''fixed_code:''"]
    by simp
  have "\<not> sublist fence (fixed @ [newline])"
    using h(4) assms(2) by (rule no_fence_right)
  with h(3) have "\<not> sublist fence ((str ''python'' @ [newline]) @ (fixed @ [newline]))"
    by (rule no_fence_left)
  then have p1: "\<not> sublist fence ?p" by simp
  have p2: "\<not> suffix [backtick] ?p"
    using suffix_backtick_newline[of "str ''python'' @ [newline] @ fixed"] by simp
  have b: "\<not> sublist fence [newline]"
    by (simp add: fence_def backtick_def newline_def sublist_Cons_right)
  have "js_split fence (?a @ fence @ (?p @ fence @ [newline])) = ?a # js_split fence (?p @ fence @ [newline])"
    using fence_not_Nil fence_free_prefix[OF a1 a2] by (rule js_split_first_match)
  moreover have "js_split fence (?p @ fence @ [newline]) = ?p # js_split fence [newline]"
    using fence_not_Nil fence_free_prefix[OF p1 p2] by (rule js_split_first_match)
  moreover have "js_split fence [newline] = [[newline]]"
    using b by (rule js_split_no_match)
  ultimately have parts: "js_split fence (paste_message summary fixed diff) = [?a, ?p, [newline]]"
    by (simp add: msg)
  have lang: "test_language (trim (str ''python''))" "newline \<notin> set (str ''python'')"
    by (simp_all add: test_language_def trim_def isWhiteSpace_def isTagChar_def str_def newline_def)
  have code: "code_text ?p = strip_newlines (fixed @ [newline])"
    using lang by (rule code_text_after_language)
  have blank: "trim [newline] = []"
    by (simp add: trim_def isWhiteSpace_def newline_def)
  have first: "(0xCF54 :: jschar) \<in> set ?a"
    by (simp add: text_result_header_def)
  have nw: "\<not> isWhiteSpace (0xCF54 :: jschar)"
    by (simp add: isWhiteSpace_def)
  have nonblank: "trim ?a \<noteq> []"
  proof
    assume "trim ?a = []"
    with set_trim_cover[of ?a] have "set ?a \<subseteq> Collect isWhiteSpace" by simp
    with first nw show False by blast
  qed
  show ?thesis
    using nonblank code by (simp add: body_nodes_def parts blank)
qed

theorem pasted_result_nodes_witness:
  "body_nodes (paste_message (str ''ok'') (str ''x = 1'') [])
     = [Div (text_result_header @ str ''ok'' @ [newline, newline] @ str ''fixed_code:'' @ [newline]),
        Pre (str ''x = 1'' @ [newline])]"
proof -
  have f: "\<not> sublist fence (str ''ok'')" "\<not> sublist fence (str ''x = 1'')"
    by (simp_all add: fence_def backtick_def str_def sublist_Cons_right)
  have t: "trim (str ''x = 1'') \<noteq> []" "trim [] = []"
    by (simp_all add: trim_def isWhiteSpace_def str_def)
  have e: "escapeHtml (text_result_header @ str ''ok'' @ [newline, newline] @ str ''fixed_code:'' @ [newline])
             = text_result_header @ str ''ok'' @ [newline, newline] @ str ''fixed_code:'' @ [newline]"
    by (simp add: escapeHtml_def escapeChar_def text_result_header_def str_def newline_def)
  have s: "strip_newlines (str ''x = 1'' @ [newline]) = str ''x = 1'' @ [newline]"
    by (simp add: strip_newlines_def str_def newline_def)
  show ?thesis
    using pasted_result_nodes[OF f t] by (simp only: e s)
qed

end
